theory Spec2Isabelle
  imports Main "HOL-Library.AList"
begin

section \<open>Python values\<close>

text \<open>
  The module \<^verbatim>\<open>zabbix_action.py\<close> handles values decoded from JSON: the module
  parameters and the rows returned by the Zabbix API. They are modelled by the datatype
  below: \<^verbatim>\<open>None\<close>, booleans, unbounded integers, strings, lists, and dictionaries with
  string keys. A dictionary is an association list in insertion order; Python keeps its
  keys distinct. Floating-point numbers are not part of the model. The semantics followed
  is that of Python 3: \<^verbatim>\<open>str\<close> of a string is the string itself, and a \<^typ>\<open>char\<close>
  stands for a code point below 256.
\<close>

datatype pyval =
    PNone
  | PBool bool
  | PInt int
  | PStr string
  | PList "pyval list"
  | PDict "(string \<times> pyval) list"

type_synonym pydict = "(string \<times> pyval) list"

text \<open>Truth value testing, as in \<^verbatim>\<open>if data[item]:\<close> and \<^verbatim>\<open>if action_id:\<close>.\<close>

fun py_truthy :: "pyval \<Rightarrow> bool" where
  "py_truthy PNone = False"
| "py_truthy (PBool b) = b"
| "py_truthy (PInt i) = (i \<noteq> 0)"
| "py_truthy (PStr s) = (s \<noteq> [])"
| "py_truthy (PList xs) = (xs \<noteq> [])"
| "py_truthy (PDict kvs) = (kvs \<noteq> [])"

text \<open>
  Python's \<^verbatim>\<open>==\<close>. A boolean is an integer (\<^verbatim>\<open>True == 1\<close>); lists are compared
  element by element; two dictionaries are equal when they have the same number of
  entries and every key of the first is a key of the second with an equal value, whatever
  the insertion order. Values of different kinds are unequal.
\<close>

function (sequential) py_eq :: "pyval \<Rightarrow> pyval \<Rightarrow> bool" where
  "py_eq PNone PNone = True"
| "py_eq (PBool a) (PBool b) = (a = b)"
| "py_eq (PBool a) (PInt j) = ((if a then 1 else 0) = j)"
| "py_eq (PInt i) (PBool b) = (i = (if b then 1 else 0))"
| "py_eq (PInt i) (PInt j) = (i = j)"
| "py_eq (PStr s) (PStr t) = (s = t)"
| "py_eq (PList xs) (PList ys) =
     (length xs = length ys \<and> (\<forall>(x, y) \<in> set (zip xs ys). py_eq x y))"
| "py_eq (PDict a) (PDict b) =
     (length a = length b \<and>
      (\<forall>(k, v) \<in> set a. case map_of b k of None \<Rightarrow> False | Some w \<Rightarrow> py_eq v w))"
| "py_eq _ _ = False"
  by pat_completeness auto

termination py_eq
proof (relation "measure (\<lambda>(a, b). size a)", goal_cases)
  case 1
  show ?case by simp
next
  case (2 xs ys z x y)
  then have "x \<in> set xs" by (auto dest: set_zip_leftD)
  then show ?case using size_list_estimation' [of x xs "size x" size] by simp
next
  case (3 a b z k v w)
  then have "(k, v) \<in> set a" by simp
  then show ?case
    using size_list_estimation' [of "(k, v)" a "size v" "size_prod (\<lambda>x. 0) size"]
    by simp
qed

definition py_ne :: "pyval \<Rightarrow> pyval \<Rightarrow> bool" where
  "py_ne a b = (\<not> py_eq a b)"

subsection \<open>\<^verbatim>\<open>str\<close> and \<^verbatim>\<open>repr\<close>\<close>

definition squote :: char where
  "squote = CHR 0x27"

definition dquote :: char where
  "dquote = CHR 0x22"

definition backslash :: char where
  "backslash = CHR 0x5C"

fun dec_nat :: "nat \<Rightarrow> string" where
  "dec_nat n =
     (if n < 10 then [''0123456789'' ! n]
      else dec_nat (n div 10) @ [''0123456789'' ! (n mod 10)])"

declare dec_nat.simps [simp del]

definition dec_int :: "int \<Rightarrow> string" where
  "dec_int i = (if i < 0 then CHR ''-'' # dec_nat (nat (- i)) else dec_nat (nat i))"

definition hex_digit :: "nat \<Rightarrow> char" where
  "hex_digit d = ''0123456789abcdef'' ! d"

text \<open>
  \<^verbatim>\<open>repr\<close> of a string: double quotes when the string has a single quote and no double
  quote, single quotes otherwise; the quote in use and the backslash are escaped, as are
  tab, newline, carriage return and the code points that are not printable.
\<close>

definition repr_char :: "char \<Rightarrow> char \<Rightarrow> string" where
  "repr_char q c =
     (let n = (of_char c :: nat) in
      if c = q \<or> c = backslash then [backslash, c]
      else if n = 9 then [backslash, CHR ''t'']
      else if n = 10 then [backslash, CHR ''n'']
      else if n = 13 then [backslash, CHR ''r'']
      else if n < 32 \<or> n = 127 \<or> (128 \<le> n \<and> n \<le> 160) \<or> n = 173
        then [backslash, CHR ''x'', hex_digit (n div 16), hex_digit (n mod 16)]
      else [c])"

definition repr_str :: "string \<Rightarrow> string" where
  "repr_str s =
     (let q = (if squote \<in> set s \<and> dquote \<notin> set s then dquote else squote)
      in q # concat (map (repr_char q) s) @ [q])"

fun join :: "string \<Rightarrow> string list \<Rightarrow> string" where
  "join sep [] = []"
| "join sep [x] = x"
| "join sep (x # y # ys) = x @ sep @ join sep (y # ys)"

function py_repr :: "pyval \<Rightarrow> string" where
  "py_repr PNone = ''None''"
| "py_repr (PBool b) = (if b then ''True'' else ''False'')"
| "py_repr (PInt i) = dec_int i"
| "py_repr (PStr s) = repr_str s"
| "py_repr (PList xs) = ''['' @ join '', '' (map py_repr xs) @ '']''"
| "py_repr (PDict kvs) =
     ''{'' @ join '', '' (map (\<lambda>(k, v). repr_str k @ '': '' @ py_repr v) kvs) @ ''}''"
  by pat_completeness auto

termination py_repr
proof (relation "measure size", goal_cases)
  case 1
  show ?case by simp
next
  case (2 xs x)
  then show ?case using size_list_estimation' [of x xs "size x" size] by simp
next
  case (3 kvs z k v)
  then have "(k, v) \<in> set kvs" by simp
  then show ?case
    using size_list_estimation' [of "(k, v)" kvs "size v" "size_prod (\<lambda>x. 0) size"]
    by simp
qed

text \<open>\<^verbatim>\<open>str(v)\<close>, which is also what \<^verbatim>\<open>"%s" % v\<close> inserts.\<close>

fun py_str :: "pyval \<Rightarrow> string" where
  "py_str (PStr s) = s"
| "py_str v = py_repr v"

definition type_name :: "pyval \<Rightarrow> string" where
  "type_name v =
     (case v of PNone \<Rightarrow> ''NoneType'' | PBool _ \<Rightarrow> ''bool'' | PInt _ \<Rightarrow> ''int''
      | PStr _ \<Rightarrow> ''str'' | PList _ \<Rightarrow> ''list'' | PDict _ \<Rightarrow> ''dict'')"

definition quoted :: "string \<Rightarrow> string" where
  "quoted s = squote # s @ [squote]"

section \<open>Exceptions, module exit and the remote client\<close>

text \<open>
  The exceptions the module can meet. \<open>RemoteError\<close> stands for whatever the Zabbix
  client raises, with the text \<^verbatim>\<open>str(e)\<close> gives; the others are raised by the
  interpreter.
\<close>

datatype pyexc =
    KeyError string
  | TypeError string
  | AttributeError string
  | ValueError string
  | RemoteError string

definition exc_str :: "pyexc \<Rightarrow> string" where
  "exc_str e =
     (case e of KeyError k \<Rightarrow> repr_str k | TypeError m \<Rightarrow> m
      | AttributeError m \<Rightarrow> m | ValueError m \<Rightarrow> m | RemoteError m \<Rightarrow> m)"

text \<open>
  How an invocation reports: \<^verbatim>\<open>exit_json(changed=..., result=...)\<close> or
  \<^verbatim>\<open>fail_json(msg=...)\<close>.
\<close>

datatype outcome =
    ExitJson bool "string option"
  | FailJson string

text \<open>
  The result of running a piece of the module: a value, a raised exception (which an
  enclosing \<^verbatim>\<open>except Exception\<close> catches), the end of the process through
  \<^verbatim>\<open>exit_json\<close> or \<^verbatim>\<open>fail_json\<close> (which no handler of the module catches), or
  \<open>Unsupported\<close> when the code goes on with a value the datatype \<^typ>\<open>pyval\<close> cannot
  represent.
\<close>

datatype 'a res =
    Ret 'a
  | Raise pyexc
  | Exit outcome
  | Unsupported

text \<open>The remote calls an invocation issues, in order, with their arguments.\<close>

datatype call =
    ActionGet pydict
  | ActionCreate pydict
  | ActionUpdate pydict
  | ActionDelete "pyval list"

type_synonym 'a io = "call list \<times> 'a res"

definition io_return :: "'a \<Rightarrow> 'a io" where
  "io_return x = ([], Ret x)"

definition io_bind :: "'a io \<Rightarrow> ('a \<Rightarrow> 'b io) \<Rightarrow> 'b io" where
  "io_bind m f =
     (case m of
        (calls, Ret x) \<Rightarrow> (case f x of (calls', r) \<Rightarrow> (calls @ calls', r))
      | (calls, Raise e) \<Rightarrow> (calls, Raise e)
      | (calls, Exit out) \<Rightarrow> (calls, Exit out)
      | (calls, Unsupported) \<Rightarrow> (calls, Unsupported))"

definition io_raise :: "pyexc \<Rightarrow> 'a io" where
  "io_raise e = ([], Raise e)"

text \<open>\<^verbatim>\<open>try: m except Exception as e: h e\<close>. Only a raised exception reaches the handler.\<close>

definition io_try :: "'a io \<Rightarrow> (pyexc \<Rightarrow> 'a io) \<Rightarrow> 'a io" where
  "io_try m h =
     (case m of
        (calls, Raise e) \<Rightarrow> (case h e of (calls', r) \<Rightarrow> (calls @ calls', r))
      | (calls, r) \<Rightarrow> (calls, r))"

text \<open>
  Modelled from the spec: \<^verbatim>\<open>AnsibleModule.exit_json\<close> and
  \<^verbatim>\<open>AnsibleModule.fail_json\<close> of \<^verbatim>\<open>ansible.module_utils.basic\<close>, which is not
  among the sources. The invocation surface "receives back one of: {changed=false},
  {changed=true, message}, or a fatal failure with a message string", and every such
  report ends the invocation: the statements after the call do not run, and the handlers
  of the module, which catch \<^verbatim>\<open>Exception\<close>, do not see it.
\<close>

definition exit_json :: "bool \<Rightarrow> string option \<Rightarrow> 'a io" where
  "exit_json changed result = ([], Exit (ExitJson changed result))"

definition fail_json :: "string \<Rightarrow> 'a io" where
  "fail_json msg = ([], Exit (FailJson msg))"

text \<open>
  The Zabbix client \<^verbatim>\<open>zabbix_api.ZabbixAPI\<close> is a library outside the repository.
  It is a parameter of the model: for each method, what the server answers to a request,
  \<open>Inl\<close> the text of the exception raised, \<open>Inr\<close> the value returned. The answer of
  \<^verbatim>\<open>action.get\<close> is a list of rows, each a dictionary.
\<close>

record zabbix_api =
  action_get :: "pydict \<Rightarrow> string + pydict list"
  action_create :: "pydict \<Rightarrow> string + pyval"
  action_update :: "pydict \<Rightarrow> string + pyval"
  action_delete :: "pyval list \<Rightarrow> string + pyval"

definition remote :: "call \<Rightarrow> string + 'a \<Rightarrow> 'a io" where
  "remote c reply =
     (case reply of Inl e \<Rightarrow> ([c], Raise (RemoteError e)) | Inr v \<Rightarrow> ([c], Ret v))"

subsection \<open>Dictionary operations\<close>

text \<open>\<^verbatim>\<open>d[k]\<close>, \<^verbatim>\<open>k in d\<close>, \<^verbatim>\<open>d[k] = v\<close>, \<^verbatim>\<open>d.pop(k)\<close> for a key that is present,
  \<^verbatim>\<open>d.update(other)\<close> for a dictionary \<open>other\<close>, and \<^verbatim>\<open>len\<close>.\<close>

definition getitem :: "pydict \<Rightarrow> string \<Rightarrow> pyval io" where
  "getitem d k = (case map_of d k of None \<Rightarrow> io_raise (KeyError k) | Some v \<Rightarrow> io_return v)"

definition has_key :: "pydict \<Rightarrow> string \<Rightarrow> bool" where
  "has_key d k = (k \<in> set (map fst d))"

definition setitem :: "pydict \<Rightarrow> string \<Rightarrow> pyval \<Rightarrow> pydict" where
  "setitem d k v = AList.update k v d"

definition pop :: "pydict \<Rightarrow> string \<Rightarrow> pydict" where
  "pop d k = AList.delete k d"

definition dict_update :: "pydict \<Rightarrow> pydict \<Rightarrow> pydict" where
  "dict_update d other = fold (\<lambda>(k, v) acc. setitem acc k v) other d"

definition py_len :: "pyval \<Rightarrow> nat io" where
  "py_len v =
     (case v of
        PStr s \<Rightarrow> io_return (length s)
      | PList xs \<Rightarrow> io_return (length xs)
      | PDict kvs \<Rightarrow> io_return (length kvs)
      | _ \<Rightarrow> io_raise (TypeError (''object of type '' @ quoted (type_name v) @ '' has no len()'')))"

section \<open>The class \<^verbatim>\<open>Action\<close>\<close>

text \<open>
  The fields of \<^verbatim>\<open>self\<close>: \<^verbatim>\<open>self._module.check_mode\<close>, \<^verbatim>\<open>self._zapi\<close> and
  \<^verbatim>\<open>self.existing_data\<close>, which is \<^verbatim>\<open>None\<close> until \<^verbatim>\<open>action_exists\<close> stores a row.
\<close>

record action_obj =
  check_mode :: bool
  zapi :: zabbix_api
  existing_data :: "pydict option"

definition action_query :: "string \<Rightarrow> pydict" where
  "action_query name =
     [(''output'', PStr ''extend''),
      (''selectOperations'', PStr ''extend''),
      (''selectRecoveryOperations'', PStr ''extend''),
      (''selectFilter'', PStr ''extend''),
      (''filter'', PDict [(''name'', PStr name)])]"

text \<open>
  \<^verbatim>\<open>action_exists\<close> returns the updated object with the value of the method: the
  identifier of the first row when that row has the key \<^verbatim>\<open>actionid\<close>, and the whole
  result list otherwise. It is not inside a \<^verbatim>\<open>try\<close>.
\<close>

definition action_exists :: "action_obj \<Rightarrow> string \<Rightarrow> (action_obj \<times> pyval) io" where
  "action_exists self name =
     io_bind (remote (ActionGet (action_query name)) (action_get (zapi self) (action_query name)))
       (\<lambda>result.
          case result of
            [] \<Rightarrow> io_return (self, PList (map PDict result))
          | r0 # _ \<Rightarrow>
              (case map_of r0 ''actionid'' of
                 None \<Rightarrow> io_return (self, PList (map PDict result))
               | Some actionid \<Rightarrow> io_return (self\<lparr>existing_data := Some r0\<rparr>, actionid)))"

text \<open>
  The loop of \<^verbatim>\<open>add_action\<close>:
  \<^verbatim>\<open>for item in data: if data[item]: parameters[item] = data[item]\<close>.
\<close>

fun add_loop :: "pydict \<Rightarrow> string list \<Rightarrow> pydict \<Rightarrow> pydict io" where
  "add_loop data [] parameters = io_return parameters"
| "add_loop data (item # items) parameters =
     io_bind (getitem data item)
       (\<lambda>v. if py_truthy v then add_loop data items (setitem parameters item v)
            else add_loop data items parameters)"

text \<open>
  The body of the \<^verbatim>\<open>try\<close> of \<^verbatim>\<open>add_action\<close>. The two lines after \<^verbatim>\<open>exit_json\<close>
  (the return of the created identifier) are never reached.
\<close>

definition add_action_try :: "action_obj \<Rightarrow> pydict \<Rightarrow> unit io" where
  "add_action_try self data =
     (if check_mode self then exit_json True None
      else
        io_bind (add_loop data (map fst data) [])
          (\<lambda>parameters.
        io_bind (remote (ActionCreate parameters) (action_create (zapi self) parameters))
          (\<lambda>action_ids_list.
        io_bind (getitem data ''name'')
          (\<lambda>name.
        io_bind (getitem data ''status'')
          (\<lambda>status.
        exit_json True
          (Some (''Successfully added action '' @ py_str name @ '' ('' @ py_str status @ '')'')))))))"

definition add_action :: "action_obj \<Rightarrow> pydict \<Rightarrow> unit io" where
  "add_action self data =
     io_try (add_action_try self data)
       (\<lambda>e. io_bind (getitem data ''name'')
          (\<lambda>name. fail_json (''Failed to create action '' @ py_str name @ '': '' @ exc_str e)))"

definition delete_action_try :: "action_obj \<Rightarrow> pyval \<Rightarrow> string \<Rightarrow> unit io" where
  "delete_action_try self action_id name =
     (if check_mode self then exit_json True None
      else
        io_bind (remote (ActionDelete [action_id]) (action_delete (zapi self) [action_id]))
          (\<lambda>ack. exit_json True (Some (''Successfully deleted'' @ '' action '' @ name))))"

definition delete_action :: "action_obj \<Rightarrow> pyval \<Rightarrow> string \<Rightarrow> unit io" where
  "delete_action self action_id name =
     io_try (delete_action_try self action_id name)
       (\<lambda>e. fail_json (''Failed to delete action '' @ name @ '': '' @ exc_str e))"

text \<open>
  \<^verbatim>\<open>d.update(other)\<close> for any value \<open>other\<close>. A dictionary is laid over \<open>d\<close>; a value
  that cannot be iterated raises; a string is iterated by characters, none of which is a
  pair. A list is read as a sequence of pairs whose keys need not be strings: the result
  is outside \<^typ>\<open>pyval\<close> and the model stops with \<open>Unsupported\<close>, but for
  the empty list, which adds nothing.
\<close>

definition dict_update_py :: "pydict \<Rightarrow> pyval \<Rightarrow> pydict io" where
  "dict_update_py d other =
     (case other of
        PDict kvs \<Rightarrow> io_return (dict_update d kvs)
      | PStr s \<Rightarrow>
          (if s = [] then io_return d
           else io_raise (ValueError
             ''dictionary update sequence element #0 has length 1; 2 is required''))
      | PList xs \<Rightarrow> (if xs = [] then io_return d else ([], Unsupported))
      | _ \<Rightarrow> io_raise (TypeError (quoted (type_name other) @ '' object is not iterable'')))"

text \<open>
  \<^verbatim>\<open>final_interface = old_interface.copy(); final_interface.update(new_interface)\<close>:
  a dictionary has both methods, a list has \<^verbatim>\<open>copy\<close> only, other values have neither.
\<close>

definition copy_update :: "pyval \<Rightarrow> pyval \<Rightarrow> pydict io" where
  "copy_update old_interface new_interface =
     (case old_interface of
        PDict old \<Rightarrow> dict_update_py old new_interface
      | PList xs \<Rightarrow>
          io_raise (AttributeError
            (quoted ''list'' @ '' object has no attribute '' @ quoted ''update''))
      | _ \<Rightarrow>
          io_raise (AttributeError
            (quoted (type_name old_interface) @ '' object has no attribute '' @ quoted ''copy'')))"

text \<open>\<^verbatim>\<open>dict((k, str(v)) for k, v in final_interface.items())\<close>\<close>

definition str_values :: "pydict \<Rightarrow> pydict" where
  "str_values d = map (\<lambda>(k, v). (k, PStr (py_str v))) d"

text \<open>
  What \<^verbatim>\<open>x in None\<close> raises: \<^verbatim>\<open>self.existing_data\<close> is \<^verbatim>\<open>None\<close> when
  \<^verbatim>\<open>action_exists\<close> stored no row.
\<close>

definition none_not_iterable :: pyexc where
  "none_not_iterable = TypeError (''argument of type '' @ quoted ''NoneType'' @ '' is not iterable'')"

definition compile_interface_params :: "action_obj \<Rightarrow> pyval \<Rightarrow> pydict io" where
  "compile_interface_params self new_interface =
     (case existing_data self of
        None \<Rightarrow> io_raise none_not_iterable
      | Some ed \<Rightarrow>
          io_bind
            (case map_of ed ''interface'' of
               None \<Rightarrow> io_return (PDict [])
             | Some iface \<Rightarrow>
                 io_bind (py_len iface)
                   (\<lambda>n. if 0 < n then io_return iface else io_return (PDict [])))
            (\<lambda>old_interface.
          io_bind (copy_update old_interface new_interface)
            (\<lambda>merged.
          let final_interface = str_values merged in
          if py_ne (PDict final_interface) old_interface then io_return final_interface
          else io_return [])))"

text \<open>
  The loop of \<^verbatim>\<open>update_action\<close>. The conjunction is evaluated left to right and stops
  at the first false operand, so \<^verbatim>\<open>item in self.existing_data\<close> is only evaluated for a
  truthy \<^verbatim>\<open>data[item]\<close>.
\<close>

fun diff_loop :: "pydict option \<Rightarrow> pydict \<Rightarrow> string list \<Rightarrow> pydict \<Rightarrow> pydict io" where
  "diff_loop existing data [] parameters = io_return parameters"
| "diff_loop existing data (item # items) parameters =
     io_bind (getitem data item)
       (\<lambda>v. if \<not> py_truthy v then diff_loop existing data items parameters
            else
              (case existing of
                 None \<Rightarrow> io_raise none_not_iterable
               | Some ed \<Rightarrow>
                   (case map_of ed item of
                      None \<Rightarrow> diff_loop existing data items parameters
                    | Some w \<Rightarrow>
                        if py_ne w v
                        then diff_loop existing data items (setitem parameters item v)
                        else diff_loop existing data items parameters)))"

text \<open>
  The payload of \<^verbatim>\<open>update_action\<close>: the statements from
  \<^verbatim>\<open>parameters = {'actionid': action_id}\<close> to the test of \<^verbatim>\<open>len(parameters)\<close>.
\<close>

definition update_parameters :: "action_obj \<Rightarrow> pyval \<Rightarrow> pydict \<Rightarrow> pydict io" where
  "update_parameters self action_id data =
     io_bind (diff_loop (existing_data self) data (map fst data) [(''actionid'', action_id)])
       (\<lambda>parameters.
     let parameters =
       (if has_key parameters ''interface'' then pop parameters ''interface'' else parameters)
     in
       if has_key data ''interface'' then
         io_bind (getitem data ''status'')
           (\<lambda>status.
              if py_eq status (PStr ''6'') then
                io_bind (getitem data ''interface'')
                  (\<lambda>desired.
                io_bind (compile_interface_params self desired)
                  (\<lambda>new_interface.
                     if 0 < length new_interface
                     then io_return (setitem parameters ''interface'' (PDict new_interface))
                     else io_return parameters))
              else io_return parameters)
       else io_return parameters)"

definition update_action_try :: "action_obj \<Rightarrow> pyval \<Rightarrow> pydict \<Rightarrow> unit io" where
  "update_action_try self action_id data =
     (if check_mode self then exit_json True None
      else
        io_bind (update_parameters self action_id data)
          (\<lambda>parameters.
             if 1 < length parameters then
               io_bind (remote (ActionUpdate parameters) (action_update (zapi self) parameters))
                 (\<lambda>ack.
               io_bind (getitem data ''host'')
                 (\<lambda>host.
               exit_json True
                 (Some (''Successfully updated action '' @ py_str host @
                        '' ('' @ py_str action_id @ '')''))))
             else exit_json False None))"

definition update_action :: "action_obj \<Rightarrow> pyval \<Rightarrow> pydict \<Rightarrow> unit io" where
  "update_action self action_id data =
     io_try (update_action_try self action_id data)
       (\<lambda>e. io_bind (getitem data ''host'')
          (\<lambda>host. fail_json (''Failed to update action '' @ py_str host @ '': '' @ exc_str e)))"

section \<open>The entry point\<close>

text \<open>
  The parameters \<^verbatim>\<open>main\<close> reads, after the framework has parsed and typed them
  (\<^verbatim>\<open>action_name\<close> and \<^verbatim>\<open>esc_period\<close> of type \<^verbatim>\<open>str\<close>, \<^verbatim>\<open>eventsource\<close> of type
  \<^verbatim>\<open>int\<close>, \<^verbatim>\<open>operations\<close> of type \<^verbatim>\<open>list\<close>), with the flag \<^verbatim>\<open>module.check_mode\<close>.
  The connection parameters are only handed to the client and are left out.
\<close>

record module_params =
  param_check_mode :: bool
  param_action_name :: string
  param_status :: string
  param_state :: string
  param_esc_period :: string
  param_eventsource :: int
  param_operations :: "pyval list"

text \<open>
  What \<^verbatim>\<open>main\<close> finds around it: whether \<^verbatim>\<open>zabbix_api\<close> could be imported, the
  answer to the login (\<open>Some\<close> the text of the exception raised by the constructor or by
  \<^verbatim>\<open>login\<close>, \<open>None\<close> when the session is open), and the answers of the server.
\<close>

record environment =
  has_zabbix_api :: bool
  login_error :: "string option"
  server :: zabbix_api

definition status_code :: "string \<Rightarrow> int" where
  "status_code s = (if s = ''passive'' then 6 else 5)"

text \<open>The dictionary literal \<^verbatim>\<open>main\<close> hands to \<^verbatim>\<open>update_action\<close> and \<^verbatim>\<open>add_action\<close>.\<close>

definition desired_data :: "module_params \<Rightarrow> pydict" where
  "desired_data p =
     [(''name'', PStr (param_action_name p)),
      (''status'', PStr (py_str (PInt (status_code (param_status p))))),
      (''esc_period'', PStr (py_str (PStr (param_esc_period p)))),
      (''eventsource'', PInt (param_eventsource p)),
      (''operations'', PList (param_operations p))]"

definition main :: "environment \<Rightarrow> module_params \<Rightarrow> unit io" where
  "main env p =
     (if \<not> has_zabbix_api env then
        fail_json (''Missing requried zabbix-api module'' @ '' (check docs or install with:'' @
                   '' pip install zabbix-api)'')
      else
        (case login_error env of
           Some e \<Rightarrow> fail_json (''Failed to connect to Zabbix server: '' @ e)
         | None \<Rightarrow>
             io_bind
               (action_exists
                  \<lparr>check_mode = param_check_mode p, zapi = server env, existing_data = None\<rparr>
                  (param_action_name p))
               (\<lambda>(action, action_id).
                  if py_truthy action_id then
                    (if param_state p = ''absent''
                     then delete_action action action_id (param_action_name p)
                     else update_action action action_id (desired_data p))
                  else
                    (if param_state p = ''absent'' then exit_json False None
                     else add_action action (desired_data p)))))"

section \<open>Observations and example invocations\<close>

text \<open>The \<^verbatim>\<open>changed\<close> flag an invocation reports, if it reports one.\<close>

definition changed_of :: "unit io \<Rightarrow> bool option" where
  "changed_of m = (case snd m of Exit (ExitJson changed result) \<Rightarrow> Some changed | _ \<Rightarrow> None)"

text \<open>
  An action as the server stores it, a server that holds the given rows and accepts every
  call, one that rejects every change, and the parameters of the example of the module's
  documentation, with event source 0.
\<close>

definition example_row :: pydict where
  "example_row =
     [(''actionid'', PStr ''7''),
      (''name'', PStr ''Exampleaction''),
      (''status'', PStr ''5''),
      (''esc_period'', PStr ''2m''),
      (''eventsource'', PStr ''0''),
      (''operations'', PList [PDict [(''operationtype'', PStr ''0'')]])]"

definition example_server :: "pydict list \<Rightarrow> zabbix_api" where
  "example_server rows =
     \<lparr>action_get = (\<lambda>q. Inr rows),
      action_create = (\<lambda>payload. Inr (PDict [(''actionids'', PList [PStr ''8''])])),
      action_update = (\<lambda>payload. Inr (PDict [(''actionids'', PList [PStr ''7''])])),
      action_delete = (\<lambda>ids. Inr (PDict [(''actionids'', PList [PStr ''7''])]))\<rparr>"

definition rejecting_server :: "pydict list \<Rightarrow> zabbix_api" where
  "rejecting_server rows =
     \<lparr>action_get = (\<lambda>q. Inr rows),
      action_create = (\<lambda>payload. Inl ''Invalid params''),
      action_update = (\<lambda>payload. Inl ''Invalid params''),
      action_delete = (\<lambda>ids. Inl ''Invalid params'')\<rparr>"

definition example_env :: "zabbix_api \<Rightarrow> environment" where
  "example_env api = \<lparr>has_zabbix_api = True, login_error = None, server = api\<rparr>"

definition example_params :: "bool \<Rightarrow> string \<Rightarrow> string \<Rightarrow> module_params" where
  "example_params check st state =
     \<lparr>param_check_mode = check,
      param_action_name = ''Exampleaction'',
      param_status = st,
      param_state = state,
      param_esc_period = ''2m'',
      param_eventsource = 0,
      param_operations = [PDict [(''operationtype'', PStr ''0'')]]\<rparr>"

definition example_query :: pydict where
  "example_query = action_query ''Exampleaction''"

definition example_self :: action_obj where
  "example_self =
     \<lparr>check_mode = False, zapi = example_server [example_row],
      existing_data = Some example_row\<rparr>"

text \<open>
  The test of the loop of \<^verbatim>\<open>update_action\<close> for one key:
  \<^verbatim>\<open>data[item] and item in self.existing_data and self.existing_data[item] != data[item]\<close>.
\<close>

definition field_differs :: "pydict \<Rightarrow> pydict \<Rightarrow> string \<Rightarrow> bool" where
  "field_differs ed data k =
     (case map_of data k of
        None \<Rightarrow> False
      | Some v \<Rightarrow> py_truthy v \<and> (case map_of ed k of None \<Rightarrow> False | Some w \<Rightarrow> py_ne w v))"

text \<open>The keys of the dictionary \<^verbatim>\<open>main\<close> builds, in its order.\<close>

definition desired_fields :: "string list" where
  "desired_fields = [''name'', ''status'', ''esc_period'', ''eventsource'', ''operations'']"

text \<open>A row that lacks the key \<^verbatim>\<open>actionid\<close>.\<close>

definition row_without_id :: pydict where
  "row_without_id = [(''name'', PStr ''Exampleaction''), (''status'', PStr ''5'')]"

text \<open>A value that is a string.\<close>

definition is_str :: "pyval \<Rightarrow> bool" where
  "is_str v = (case v of PStr s \<Rightarrow> True | _ \<Rightarrow> False)"

text \<open>
  A stored action with an interface, a desired dictionary with the passive status code
  and an interface, and the object that holds the stored action.
\<close>

definition passive_row :: pydict where
  "passive_row =
     [(''actionid'', PStr ''7''),
      (''status'', PStr ''5''),
      (''interface'', PDict [(''ip'', PStr ''10.0.0.1''), (''useip'', PStr ''1'')])]"

definition passive_data :: pydict where
  "passive_data =
     [(''status'', PStr ''6''),
      (''interface'', PDict [(''useip'', PInt 0)])]"

definition passive_self :: action_obj where
  "passive_self =
     \<lparr>check_mode = False, zapi = example_server [passive_row],
      existing_data = Some passive_row\<rparr>"

section \<open>Basic facts\<close>

lemma io_bind_return [simp]: "io_bind (io_return x) f = f x"
  by (simp add: io_bind_def io_return_def split: prod.splits)

lemma io_bind_raise [simp]: "io_bind (io_raise e) f = io_raise e"
  by (simp add: io_bind_def io_raise_def)

lemma io_bind_Ret: "io_bind (cs, Ret x) f = (cs @ fst (f x), snd (f x))"
  by (simp add: io_bind_def split: prod.splits)

lemma io_bind_not_Ret:
  "io_bind (cs, Raise e) f = (cs, Raise e)"
  "io_bind (cs, Exit out) f = (cs, Exit out)"
  "io_bind (cs, Unsupported) f = (cs, Unsupported)"
  by (simp_all add: io_bind_def)

lemma io_try_simps:
  "io_try (cs, Raise e) h = (cs @ fst (h e), snd (h e))"
  "io_try (cs, Ret x) h = (cs, Ret x)"
  "io_try (cs, Exit out) h = (cs, Exit out)"
  "io_try (cs, Unsupported) h = (cs, Unsupported)"
  by (simp_all add: io_try_def split: prod.splits)

lemma getitem_Some: "map_of d k = Some v \<Longrightarrow> getitem d k = io_return v"
  by (simp add: getitem_def)

lemma getitem_None: "map_of d k = None \<Longrightarrow> getitem d k = io_raise (KeyError k)"
  by (simp add: getitem_def)

lemma has_key_map_of: "has_key d k \<longleftrightarrow> map_of d k \<noteq> None"
  by (simp add: has_key_def map_of_eq_None_iff)

lemma map_of_setitem: "map_of (setitem d k v) = (map_of d)(k \<mapsto> v)"
  by (simp add: setitem_def update_conv')

lemma distinct_setitem: "distinct (map fst d) \<Longrightarrow> distinct (map fst (setitem d k v))"
  by (simp add: setitem_def distinct_update)

section \<open>Lookup and dispatch\<close>

lemma action_exists_empty:
  assumes "action_get (zapi self) (action_query name) = Inr []"
  shows "action_exists self name = ([ActionGet (action_query name)], Ret (self, PList []))"
  using assms by (simp add: action_exists_def remote_def io_bind_Ret io_return_def)

lemma action_exists_found:
  assumes "action_get (zapi self) (action_query name) = Inr (r0 # rest)"
    and "map_of r0 ''actionid'' = Some aid"
  shows "action_exists self name =
           ([ActionGet (action_query name)], Ret (self\<lparr>existing_data := Some r0\<rparr>, aid))"
  using assms by (simp add: action_exists_def remote_def io_bind_Ret io_return_def)

lemma action_exists_no_id:
  assumes "action_get (zapi self) (action_query name) = Inr (r0 # rest)"
    and "map_of r0 ''actionid'' = None"
  shows "action_exists self name =
           ([ActionGet (action_query name)], Ret (self, PList (map PDict (r0 # rest))))"
  using assms by (simp add: action_exists_def remote_def io_bind_Ret io_return_def)

lemma action_exists_calls:
  assumes "action_exists self name = (cs, r)"
  shows "cs = [ActionGet (action_query name)]"
  using assms
  by (auto simp: action_exists_def remote_def io_bind_Ret io_bind_not_Ret io_return_def
      split: sum.splits list.splits option.splits)

lemma action_exists_check_mode:
  assumes "action_exists self name = (cs, Ret (self', aid))"
  shows "check_mode self' = check_mode self \<and> zapi self' = zapi self"
  using assms
  by (auto simp: action_exists_def remote_def io_bind_Ret io_bind_not_Ret io_return_def
      split: sum.splits list.splits option.splits)

lemma main_dispatch:
  assumes "has_zabbix_api env" and "login_error env = None"
    and "action_exists
           \<lparr>check_mode = param_check_mode p, zapi = server env, existing_data = None\<rparr>
           (param_action_name p) = (cs, Ret (self, action_id))"
  shows "main env p =
    (if py_truthy action_id then
       (if param_state p = ''absent''
        then (cs @ fst (delete_action self action_id (param_action_name p)),
              snd (delete_action self action_id (param_action_name p)))
        else (cs @ fst (update_action self action_id (desired_data p)),
              snd (update_action self action_id (desired_data p))))
     else
       (if param_state p = ''absent'' then (cs, Exit (ExitJson False None))
        else (cs @ fst (add_action self (desired_data p)),
              snd (add_action self (desired_data p)))))"
  using assms by (simp add: main_def io_bind_Ret exit_json_def)

lemma delete_action_eq:
  "delete_action self aid name =
     (if check_mode self then ([], Exit (ExitJson True None))
      else ([ActionDelete [aid]],
            case action_delete (zapi self) [aid] of
              Inl e \<Rightarrow> Exit (FailJson (''Failed to delete action '' @ name @ '': '' @ e))
            | Inr ack \<Rightarrow> Exit (ExitJson True (Some (''Successfully deleted action '' @ name)))))"
  by (simp add: delete_action_def delete_action_try_def exit_json_def fail_json_def remote_def
      io_try_simps io_bind_Ret io_bind_not_Ret exc_str_def split: sum.splits)

lemma setitem_fresh: "k \<notin> fst ` set d \<Longrightarrow> setitem d k v = d @ [(k, v)]"
  by (induction d) (auto simp: setitem_def)

lemma add_loop_filter:
  assumes "distinct (map fst (pre @ post))"
  shows "add_loop (pre @ post) (map fst post) (filter (\<lambda>(k, v). py_truthy v) pre) =
           io_return (filter (\<lambda>(k, v). py_truthy v) (pre @ post))"
  using assms
proof (induction post arbitrary: pre)
  case Nil
  show ?case by simp
next
  case (Cons kv post)
  obtain k v where kv: "kv = (k, v)" by (cases kv)
  have look: "map_of (pre @ kv # post) k = Some v"
    using Cons.prems kv by (simp add: map_of_append map_add_Some_iff map_of_eq_None_iff)
  have fresh: "k \<notin> fst ` set (filter (\<lambda>(k, v). py_truthy v) pre)"
    using Cons.prems kv by auto
  have set: "setitem (filter (\<lambda>(k, v). py_truthy v) pre) k v =
               filter (\<lambda>(k, v). py_truthy v) pre @ [(k, v)]"
    using fresh by (rule setitem_fresh)
  have d: "distinct (map fst ((pre @ [kv]) @ post))"
    using Cons.prems by simp
  show ?case
    using Cons.IH [OF d] look kv set
    by (cases "py_truthy v") (simp_all add: getitem_Some)
qed

lemma add_action_eq:
  assumes "distinct (map fst data)" and "map_of data ''name'' = Some n"
    and "map_of data ''status'' = Some s"
  shows "add_action self data =
     (if check_mode self then ([], Exit (ExitJson True None))
      else ([ActionCreate (filter (\<lambda>(k, v). py_truthy v) data)],
            case action_create (zapi self) (filter (\<lambda>(k, v). py_truthy v) data) of
              Inl e \<Rightarrow> Exit (FailJson (''Failed to create action '' @ py_str n @ '': '' @ e))
            | Inr ids \<Rightarrow>
                Exit (ExitJson True
                  (Some (''Successfully added action '' @ py_str n @ '' ('' @ py_str s @ '')'')))))"
proof -
  have "add_loop data (map fst data) [] = io_return (filter (\<lambda>(k, v). py_truthy v) data)"
    using add_loop_filter [of "[]" data] assms(1) by simp
  then show ?thesis
    using assms(2,3)
    by (simp add: add_action_def add_action_try_def exit_json_def fail_json_def remote_def
        getitem_Some io_try_simps io_bind_Ret io_bind_not_Ret exc_str_def io_return_def
        split: sum.splits)
qed

section \<open>The update payload\<close>

lemma diff_loop_found:
  assumes "set items \<subseteq> fst ` set data"
  shows "\<exists>ps'. diff_loop (Some ed) data items ps = ([], Ret ps') \<and>
           (distinct (map fst ps) \<longrightarrow> distinct (map fst ps')) \<and>
           (\<forall>k. map_of ps' k =
              (if k \<in> set items \<and> field_differs ed data k then map_of data k else map_of ps k))"
  using assms
proof (induction items arbitrary: ps)
  case Nil
  then show ?case by (simp add: io_return_def)
next
  case (Cons item items)
  from Cons.prems have "has_key data item" by (auto simp: has_key_def)
  then obtain v where v: "map_of data item = Some v"
    by (auto simp: has_key_map_of)
  from Cons.prems have sub: "set items \<subseteq> fst ` set data" by simp
  show ?case
  proof (cases "field_differs ed data item")
    case True
    then obtain w where w: "map_of ed item = Some w" "py_ne w v" "py_truthy v"
      using v by (auto simp: field_differs_def split: option.splits)
    from Cons.IH [OF sub, of "setitem ps item v"] obtain ps' where
      ps': "diff_loop (Some ed) data items (setitem ps item v) = ([], Ret ps')"
        "distinct (map fst (setitem ps item v)) \<longrightarrow> distinct (map fst ps')"
        "\<forall>k. map_of ps' k =
           (if k \<in> set items \<and> field_differs ed data k then map_of data k
            else map_of (setitem ps item v) k)"
      by blast
    have "diff_loop (Some ed) data (item # items) ps = ([], Ret ps')"
      using v w ps'(1) by (simp add: getitem_Some)
    moreover have "distinct (map fst ps) \<longrightarrow> distinct (map fst ps')"
      using ps'(2) by (simp add: distinct_setitem)
    moreover have "\<forall>k. map_of ps' k =
        (if k \<in> set (item # items) \<and> field_differs ed data k then map_of data k
         else map_of ps k)"
      using ps'(3) v True by (auto simp: map_of_setitem)
    ultimately show ?thesis by blast
  next
    case False
    from Cons.IH [OF sub, of ps] obtain ps' where
      ps': "diff_loop (Some ed) data items ps = ([], Ret ps')"
        "distinct (map fst ps) \<longrightarrow> distinct (map fst ps')"
        "\<forall>k. map_of ps' k =
           (if k \<in> set items \<and> field_differs ed data k then map_of data k else map_of ps k)"
      by blast
    have "diff_loop (Some ed) data (item # items) ps = ([], Ret ps')"
      using v False ps'(1)
      by (auto simp: getitem_Some field_differs_def split: option.splits)
    moreover have "\<forall>k. map_of ps' k =
        (if k \<in> set (item # items) \<and> field_differs ed data k then map_of data k
         else map_of ps k)"
      using ps'(3) False by auto
    ultimately show ?thesis using ps'(2) by blast
  qed
qed

lemma diff_loop_shape:
  "fst (diff_loop ex data items ps) = [] \<and>
   (\<exists>ps' e. snd (diff_loop ex data items ps) = Ret ps' \<or> snd (diff_loop ex data items ps) = Raise e)"
proof (induction items arbitrary: ps)
  case Nil
  show ?case by (simp add: io_return_def)
next
  case (Cons item items)
  show ?case
  proof (cases "map_of data item")
    case None
    then show ?thesis by (simp add: getitem_None io_raise_def io_bind_not_Ret)
  next
    case (Some v)
    then show ?thesis
      using Cons.IH
      by (auto simp: getitem_Some io_raise_def io_bind_not_Ret split: option.splits)
  qed
qed

lemma field_differs_key: "field_differs ed data k \<Longrightarrow> k \<in> fst ` set data"
  by (auto simp: field_differs_def split: option.splits dest: map_of_SomeD intro: rev_image_eqI)

lemma update_parameters_plain:
  assumes "existing_data self = Some ed" and "\<not> has_key data ''interface''"
  shows "\<exists>ps. update_parameters self aid data = ([], Ret ps) \<and> distinct (map fst ps) \<and>
           (\<forall>k. map_of ps k =
              (if field_differs ed data k then map_of data k
               else if k = ''actionid'' then Some aid else None))"
proof -
  from diff_loop_found [of "map fst data" data ed "[(''actionid'', aid)]"]
  obtain ps where ps: "diff_loop (Some ed) data (map fst data) [(''actionid'', aid)] = ([], Ret ps)"
      "distinct (map fst ps)"
      "\<forall>k. map_of ps k =
         (if k \<in> set (map fst data) \<and> field_differs ed data k then map_of data k
          else map_of [(''actionid'', aid)] k)"
    by auto
  have m: "\<forall>k. map_of ps k =
         (if field_differs ed data k then map_of data k
          else if k = ''actionid'' then Some aid else None)"
    using ps(3) field_differs_key [of ed data] by auto
  have "\<not> field_differs ed data ''interface''"
    using assms(2) field_differs_key [of ed data "''interface''"] by (auto simp: has_key_def)
  then have "\<not> has_key ps ''interface''"
    using m by (simp add: has_key_map_of)
  then have "update_parameters self aid data = ([], Ret ps)"
    using assms ps(1) by (simp add: update_parameters_def io_bind_Ret io_return_def)
  then show ?thesis using ps(2) m by blast
qed

lemma compile_interface_params_shape:
  "fst (compile_interface_params self d) = [] \<and>
   (\<forall>out. snd (compile_interface_params self d) \<noteq> Exit out)"
  by (auto simp: compile_interface_params_def py_len_def copy_update_def dict_update_py_def
      io_bind_def io_return_def io_raise_def Let_def
      split: option.splits pyval.splits if_splits prod.splits)

lemma compile_interface_params_D:
  "compile_interface_params self d = (cs, r) \<Longrightarrow> cs = [] \<and> (\<forall>out. r \<noteq> Exit out)"
  using compile_interface_params_shape [of self d] by simp

lemma update_parameters_shape:
  "fst (update_parameters self aid data) = [] \<and>
   (\<forall>out. snd (update_parameters self aid data) \<noteq> Exit out)"
proof -
  obtain r where r: "diff_loop (existing_data self) data (map fst data) [(''actionid'', aid)] = ([], r)"
      "(\<exists>ps. r = Ret ps) \<or> (\<exists>e. r = Raise e)"
    using diff_loop_shape [of "existing_data self" data "map fst data" "[(''actionid'', aid)]"]
    by (metis prod.collapse)
  from r(2) show ?thesis
  proof
    assume "\<exists>e. r = Raise e"
    then show ?thesis using r(1) by (auto simp: update_parameters_def io_bind_not_Ret)
  next
    assume "\<exists>ps. r = Ret ps"
    then obtain ps where "r = Ret ps" by blast
    then show ?thesis
      using r(1)
      by (auto simp: update_parameters_def io_bind_Ret getitem_def io_return_def io_raise_def
          io_bind_not_Ret Let_def io_bind_def dest!: compile_interface_params_D
          split: option.splits if_splits prod.splits res.splits)
  qed
qed

lemma update_parameters_no_interface:
  assumes "\<not> has_key data ''interface''"
  shows "(\<exists>ps. update_parameters self aid data = ([], Ret ps)) \<or>
         (\<exists>e. update_parameters self aid data = ([], Raise e))"
proof -
  obtain r where r: "diff_loop (existing_data self) data (map fst data) [(''actionid'', aid)] = ([], r)"
      "(\<exists>ps. r = Ret ps) \<or> (\<exists>e. r = Raise e)"
    using diff_loop_shape [of "existing_data self" data "map fst data" "[(''actionid'', aid)]"]
    by (metis prod.collapse)
  from r(2) show ?thesis
  proof
    assume "\<exists>e. r = Raise e"
    then show ?thesis using r(1) by (auto simp: update_parameters_def io_bind_not_Ret)
  next
    assume "\<exists>ps. r = Ret ps"
    then show ?thesis
      using r(1) assms
      by (auto simp: update_parameters_def io_bind_Ret io_return_def Let_def)
  qed
qed

lemma update_action_no_host:
  assumes "\<not> check_mode self" and "map_of data ''host'' = None"
  shows "update_parameters self aid data = ([], Ret ps) \<Longrightarrow> 1 < length ps \<Longrightarrow>
           update_action self aid data = ([ActionUpdate ps], Raise (KeyError ''host''))"
    and "update_parameters self aid data = ([], Ret ps) \<Longrightarrow> \<not> 1 < length ps \<Longrightarrow>
           update_action self aid data = ([], Exit (ExitJson False None))"
    and "update_parameters self aid data = ([], Raise e) \<Longrightarrow>
           update_action self aid data = ([], Raise (KeyError ''host''))"
  using assms
  by (auto simp: update_action_def update_action_try_def io_bind_Ret io_bind_not_Ret remote_def
      getitem_None io_raise_def io_try_simps exit_json_def split: sum.splits)

text \<open>
  Claim C5. When \<^verbatim>\<open>action_exists\<close> has stored a row and \<^verbatim>\<open>data\<close> has the five keys
  \<^verbatim>\<open>main\<close> gives it, \<^verbatim>\<open>update_action\<close> builds a payload, and each of the five
  fields is a key of the payload exactly when its desired value is truthy, the stored row
  has the key, and the stored value is not equal (Python's \<^verbatim>\<open>!=\<close>) to the desired
  one; a field in the payload carries the desired value. So no falsy and no unchanged
  field is in the payload.
\<close>

theorem update_payload_fields:
  assumes "existing_data self = Some ed"
    and "map fst data = desired_fields"
  shows "\<exists>parameters. update_parameters self action_id data = ([], Ret parameters) \<and>
           (\<forall>k \<in> set desired_fields.
              (has_key parameters k \<longleftrightarrow>
                 (\<exists>v w. map_of data k = Some v \<and> py_truthy v \<and>
                        map_of ed k = Some w \<and> py_ne w v)) \<and>
              (has_key parameters k \<longrightarrow> map_of parameters k = map_of data k))"
proof -
  have "\<not> has_key data ''interface''"
    using assms(2) by (simp add: has_key_def desired_fields_def)
  from update_parameters_plain [OF assms(1) this, of action_id]
  obtain ps where ps: "update_parameters self action_id data = ([], Ret ps)"
      "\<forall>k. map_of ps k =
         (if field_differs ed data k then map_of data k
          else if k = ''actionid'' then Some action_id else None)"
    by blast
  have d: "field_differs ed data k \<longleftrightarrow>
      (\<exists>v w. map_of data k = Some v \<and> py_truthy v \<and> map_of ed k = Some w \<and> py_ne w v)" for k
    by (auto simp: field_differs_def split: option.splits)
  have "has_key ps k \<longleftrightarrow> field_differs ed data k" if "k \<in> set desired_fields" for k
  proof -
    from that have "k \<noteq> ''actionid''" by (auto simp: desired_fields_def)
    then show ?thesis
      using ps(2) by (auto simp: has_key_map_of field_differs_def split: option.splits)
  qed
  moreover have "has_key ps k \<longrightarrow> map_of ps k = map_of data k" if "k \<in> set desired_fields" for k
  proof -
    from that have "k \<noteq> ''actionid''" by (auto simp: desired_fields_def)
    then show ?thesis using ps(2) by (auto simp: has_key_map_of)
  qed
  ultimately show ?thesis using ps(1) d by blast
qed

theorem update_payload_fields_witness:
  "existing_data example_self = Some example_row \<and>
   map fst (desired_data (example_params False ''passive'' ''present'')) = desired_fields \<and>
   (\<exists>parameters.
      update_parameters example_self (PStr ''7'')
        (desired_data (example_params False ''passive'' ''present'')) = ([], Ret parameters) \<and>
      has_key parameters ''status'' \<and> \<not> has_key parameters ''name'' \<and>
      map_of parameters ''status'' = Some (PStr ''6''))"
proof -
  let ?data = "desired_data (example_params False ''passive'' ''present'')"
  have 1: "existing_data example_self = Some example_row"
    by (simp add: example_self_def)
  have 2: "map fst ?data = desired_fields"
    by (simp add: desired_data_def desired_fields_def)
  from update_payload_fields [OF 1 2, of "PStr ''7''"]
  obtain parameters where
    p: "update_parameters example_self (PStr ''7'') ?data = ([], Ret parameters)" and
    q: "\<forall>k \<in> set desired_fields.
          (has_key parameters k \<longleftrightarrow>
             (\<exists>v w. map_of ?data k = Some v \<and> py_truthy v \<and>
                    map_of example_row k = Some w \<and> py_ne w v)) \<and>
          (has_key parameters k \<longrightarrow> map_of parameters k = map_of ?data k)"
    by blast
  have st: "map_of ?data ''status'' = Some (PStr ''6'')"
    by (simp add: desired_data_def example_params_def status_code_def dec_int_def dec_nat.simps)
  have nm: "map_of ?data ''name'' = Some (PStr ''Exampleaction'')"
    by (simp add: desired_data_def example_params_def)
  have "has_key parameters ''status''"
    using q st by (simp add: desired_fields_def example_row_def py_ne_def)
  moreover have "\<not> has_key parameters ''name''"
    using q nm by (simp add: desired_fields_def example_row_def py_ne_def)
  moreover have "map_of parameters ''status'' = Some (PStr ''6'')"
    using q st calculation(1) by (simp add: desired_fields_def)
  ultimately show ?thesis using 1 2 p by blast
qed

section \<open>The report of an update\<close>

text \<open>
  Claim C2. Outside check mode, on the dictionary \<^verbatim>\<open>main\<close> builds (its keys are
  \<^verbatim>\<open>name\<close>, \<^verbatim>\<open>status\<close>, \<^verbatim>\<open>esc_period\<close>, \<^verbatim>\<open>eventsource\<close>, \<^verbatim>\<open>operations\<close>, so
  it has no key \<^verbatim>\<open>host\<close>): when the payload has a key besides \<^verbatim>\<open>actionid\<close>, the
  update call is issued, and whatever the server answers the method ends with the
  exception \<^verbatim>\<open>KeyError('host')\<close>, raised by the success message or by the handler's
  failure message; and \<^verbatim>\<open>update_action\<close> never reports \<^verbatim>\<open>changed=True\<close>.
\<close>

theorem update_action_never_succeeds:
  assumes "\<not> check_mode self"
  shows "map fst (desired_data p) = desired_fields \<and>
         (\<forall>ps. update_parameters self aid (desired_data p) = ([], Ret ps) \<and> 1 < length ps \<longrightarrow>
            update_action self aid (desired_data p) =
              ([ActionUpdate ps], Raise (KeyError ''host''))) \<and>
         (\<forall>result. snd (update_action self aid (desired_data p)) \<noteq> Exit (ExitJson True result))"
proof -
  let ?data = "desired_data p"
  have keys: "map fst ?data = desired_fields"
    by (simp add: desired_data_def desired_fields_def)
  have host: "map_of ?data ''host'' = None"
    by (simp add: desired_data_def)
  have noif: "\<not> has_key ?data ''interface''"
    by (simp add: has_key_def desired_data_def)
  have "snd (update_action self aid ?data) \<noteq> Exit (ExitJson True result)" for result
  proof -
    from update_parameters_no_interface [OF noif, of self aid]
    consider ps where "update_parameters self aid ?data = ([], Ret ps)" "1 < length ps"
      | ps where "update_parameters self aid ?data = ([], Ret ps)" "\<not> 1 < length ps"
      | e where "update_parameters self aid ?data = ([], Raise e)"
      by blast
    then show ?thesis
    proof cases
      case 1
      then show ?thesis using update_action_no_host(1) [OF assms host] by simp
    next
      case 2
      then show ?thesis using update_action_no_host(2) [OF assms host] by simp
    next
      case 3
      then show ?thesis using update_action_no_host(3) [OF assms host] by simp
    qed
  qed
  then show ?thesis
    using keys update_action_no_host(1) [OF assms host] by blast
qed

theorem update_action_never_succeeds_witness:
  "\<not> check_mode example_self \<and>
   update_action example_self (PStr ''7'')
     (desired_data (example_params False ''passive'' ''present'')) =
   ([ActionUpdate [(''actionid'', PStr ''7''), (''status'', PStr ''6'')]],
    Raise (KeyError ''host''))"
proof -
  have 1: "\<not> check_mode example_self"
    by (simp add: example_self_def)
  have 2: "update_parameters example_self (PStr ''7'')
             (desired_data (example_params False ''passive'' ''present'')) =
           ([], Ret [(''actionid'', PStr ''7''), (''status'', PStr ''6'')])"
    by code_simp
  show ?thesis
    using update_action_never_succeeds
      [OF 1, of "example_params False ''passive'' ''present''" "PStr ''7''"] 1 2
    by simp
qed

section \<open>Creation\<close>

lemma map_of_filter_truthy:
  "distinct (map fst d) \<Longrightarrow>
   map_of (filter (\<lambda>(k, v). P v) d) k =
     (case map_of d k of None \<Rightarrow> None | Some v \<Rightarrow> if P v then Some v else None)"
proof (induction d)
  case Nil
  show ?case by simp
next
  case (Cons kv d)
  obtain k' v' where kv: "kv = (k', v')" by (cases kv)
  from Cons.prems kv have "k' \<notin> fst ` set d" by simp
  then have "map_of d k' = None" by (simp add: map_of_eq_None_iff)
  then show ?case
    using Cons kv by (auto split: option.splits)
qed

lemma desired_data_facts:
  "distinct (map fst (desired_data p))"
  "map fst (desired_data p) = desired_fields"
  "map_of (desired_data p) ''name'' = Some (PStr (param_action_name p))"
  "map_of (desired_data p) ''status'' = Some (PStr (py_str (PInt (status_code (param_status p)))))"
  by (simp_all add: desired_data_def desired_fields_def)

text \<open>
  With check mode set, an action that is not found and should be present is not created:
  the lookup is the only call.
\<close>

theorem create_in_check_mode_counterexample:
  "main (example_env (example_server [])) (example_params True ''passive'' ''present'') =
     ([ActionGet example_query], Exit (ExitJson True None))"
  by code_simp

text \<open>
  Claim C9, amended. When the lookup returns a falsy value and the desired state is not
  \<^verbatim>\<open>absent\<close>: outside check mode the one call after the lookup is the create call, and
  its payload is the dictionary \<^verbatim>\<open>main\<close> builds restricted to the entries with a
  truthy value: its keys are exactly the fields among \<^verbatim>\<open>name\<close>, \<^verbatim>\<open>status\<close>,
  \<^verbatim>\<open>esc_period\<close>, \<^verbatim>\<open>eventsource\<close>, \<^verbatim>\<open>operations\<close> whose desired value is truthy,
  each with its desired value. In check mode no call follows the lookup.
\<close>

theorem create_payload:
  assumes "has_zabbix_api env" and "login_error env = None"
    and "action_exists
           \<lparr>check_mode = param_check_mode p, zapi = server env, existing_data = None\<rparr>
           (param_action_name p) = (cs, Ret (self, action_id))"
    and "\<not> py_truthy action_id" and "param_state p \<noteq> ''absent''"
  shows "\<exists>payload.
           fst (main env p) = cs @ (if param_check_mode p then [] else [ActionCreate payload]) \<and>
           payload = filter (\<lambda>(k, v). py_truthy v) (desired_data p) \<and>
           (\<forall>k. has_key payload k \<longleftrightarrow>
                  k \<in> set desired_fields \<and>
                  (\<exists>v. map_of (desired_data p) k = Some v \<and> py_truthy v)) \<and>
           (\<forall>k. has_key payload k \<longrightarrow> map_of payload k = map_of (desired_data p) k)"
proof -
  let ?payload = "filter (\<lambda>(k, v). py_truthy v) (desired_data p)"
  have cm: "check_mode self = param_check_mode p"
    using action_exists_check_mode [OF assms(3)] by simp
  have "main env p = (cs @ fst (add_action self (desired_data p)),
                      snd (add_action self (desired_data p)))"
    using main_dispatch [OF assms(1,2,3)] assms(4,5) by simp
  then have calls: "fst (main env p) =
      cs @ (if param_check_mode p then [] else [ActionCreate ?payload])"
    using add_action_eq [OF desired_data_facts(1,3,4), of self p] cm by simp
  have m: "map_of ?payload k =
      (case map_of (desired_data p) k of None \<Rightarrow> None
       | Some v \<Rightarrow> if py_truthy v then Some v else None)" for k
    using map_of_filter_truthy [OF desired_data_facts(1), of py_truthy p k] .
  have dom: "map_of (desired_data p) k \<noteq> None \<longleftrightarrow> k \<in> set desired_fields" for k
    using desired_data_facts(2) [of p] by (metis map_of_eq_None_iff set_map)
  have keys: "has_key ?payload k \<longleftrightarrow>
      k \<in> set desired_fields \<and> (\<exists>v. map_of (desired_data p) k = Some v \<and> py_truthy v)" for k
    using m [of k] dom [of k] by (auto simp: has_key_map_of split: option.splits if_splits)
  have vals: "has_key ?payload k \<longrightarrow> map_of ?payload k = map_of (desired_data p) k" for k
    using m [of k] by (auto simp: has_key_map_of split: option.splits if_splits)
  show ?thesis using calls keys vals by blast
qed

theorem create_payload_witness:
  "has_zabbix_api (example_env (example_server [])) \<and>
   login_error (example_env (example_server [])) = None \<and>
   fst (main (example_env (example_server [])) (example_params False ''active'' ''present'')) =
     [ActionGet example_query,
      ActionCreate [(''name'', PStr ''Exampleaction''), (''status'', PStr ''5''),
                    (''esc_period'', PStr ''2m''),
                    (''operations'', PList [PDict [(''operationtype'', PStr ''0'')]])]]"
proof -
  let ?env = "example_env (example_server [])"
  let ?p = "example_params False ''active'' ''present''"
  have 1: "has_zabbix_api ?env" by (simp add: example_env_def)
  have 2: "login_error ?env = None" by (simp add: example_env_def)
  have 3: "action_exists
             \<lparr>check_mode = param_check_mode ?p, zapi = server ?env, existing_data = None\<rparr>
             (param_action_name ?p) =
           ([ActionGet example_query],
            Ret (\<lparr>check_mode = False, zapi = server ?env, existing_data = None\<rparr>, PList []))"
    by (simp add: action_exists_empty example_env_def example_server_def example_params_def
        example_query_def)
  have 4: "\<not> py_truthy (PList [])" by simp
  have 5: "param_state ?p \<noteq> ''absent''" by (simp add: example_params_def)
  have 6: "filter (\<lambda>(k, v). py_truthy v) (desired_data ?p) =
      [(''name'', PStr ''Exampleaction''), (''status'', PStr ''5''),
       (''esc_period'', PStr ''2m''),
       (''operations'', PList [PDict [(''operationtype'', PStr ''0'')]])]"
    by code_simp
  have 7: "\<not> param_check_mode ?p" by (simp add: example_params_def)
  from create_payload [OF 1 2 3 4 5] 6 7 1 2 show ?thesis by auto
qed

section \<open>Deletion\<close>

text \<open>
  With check mode set, a found action that should be absent is not deleted: the lookup is
  the only call.
\<close>

theorem delete_issued_in_check_mode_counterexample:
  "main (example_env (example_server [example_row])) (example_params True ''active'' ''absent'') =
     ([ActionGet example_query], Exit (ExitJson True None))"
  by code_simp

text \<open>
  Claim C8, amended. Let the desired state be \<^verbatim>\<open>absent\<close>. When the lookup returns no
  row, the module reports \<^verbatim>\<open>changed=False\<close> and the lookup is its only call. When the
  first row carries a truthy \<^verbatim>\<open>actionid\<close>, then, whatever else the row holds: outside
  check mode exactly one delete call follows the lookup, with that identifier, and the
  module reports the deletion or, when the call raises, fails with the name and the error
  text; in check mode no delete call is issued and \<^verbatim>\<open>changed=True\<close> is reported.
\<close>

theorem delete_on_absent:
  assumes "has_zabbix_api env" and "login_error env = None"
    and "param_state p = ''absent''"
    and "action_get (server env) (action_query (param_action_name p)) = Inr rows"
  shows "(rows = [] \<longrightarrow>
            main env p =
              ([ActionGet (action_query (param_action_name p))], Exit (ExitJson False None))) \<and>
         (\<forall>r0 rest aid.
            rows = r0 # rest \<and> map_of r0 ''actionid'' = Some aid \<and> py_truthy aid \<longrightarrow>
            main env p =
              (if param_check_mode p
               then ([ActionGet (action_query (param_action_name p))], Exit (ExitJson True None))
               else ([ActionGet (action_query (param_action_name p)), ActionDelete [aid]],
                     case action_delete (server env) [aid] of
                       Inl e \<Rightarrow>
                         Exit (FailJson (''Failed to delete action '' @ param_action_name p @
                                         '': '' @ e))
                     | Inr ack \<Rightarrow>
                         Exit (ExitJson True
                           (Some (''Successfully deleted action '' @ param_action_name p))))))"
proof (intro conjI allI impI)
  let ?self = "\<lparr>check_mode = param_check_mode p, zapi = server env, existing_data = None\<rparr>"
  assume "rows = []"
  then have "action_exists ?self (param_action_name p) =
      ([ActionGet (action_query (param_action_name p))], Ret (?self, PList []))"
    using assms(4) by (simp add: action_exists_empty)
  from main_dispatch [OF assms(1,2) this] assms(3)
  show "main env p =
      ([ActionGet (action_query (param_action_name p))], Exit (ExitJson False None))"
    by simp
next
  let ?self = "\<lparr>check_mode = param_check_mode p, zapi = server env, existing_data = None\<rparr>"
  fix r0 rest aid
  assume a: "rows = r0 # rest \<and> map_of r0 ''actionid'' = Some aid \<and> py_truthy aid"
  then have "action_exists ?self (param_action_name p) =
      ([ActionGet (action_query (param_action_name p))],
       Ret (?self\<lparr>existing_data := Some r0\<rparr>, aid))"
    using assms(4) by (simp add: action_exists_found)
  from main_dispatch [OF assms(1,2) this] assms(3) a
  show "main env p =
      (if param_check_mode p
       then ([ActionGet (action_query (param_action_name p))], Exit (ExitJson True None))
       else ([ActionGet (action_query (param_action_name p)), ActionDelete [aid]],
             case action_delete (server env) [aid] of
               Inl e \<Rightarrow>
                 Exit (FailJson (''Failed to delete action '' @ param_action_name p @ '': '' @ e))
             | Inr ack \<Rightarrow>
                 Exit (ExitJson True
                   (Some (''Successfully deleted action '' @ param_action_name p)))))"
    by (simp add: delete_action_eq)
qed

theorem delete_on_absent_witness:
  "main (example_env (example_server [])) (example_params False ''active'' ''absent'') =
     ([ActionGet example_query], Exit (ExitJson False None)) \<and>
   main (example_env (example_server [example_row])) (example_params False ''active'' ''absent'') =
     ([ActionGet example_query, ActionDelete [PStr ''7'']],
      Exit (ExitJson True (Some ''Successfully deleted action Exampleaction'')))"
proof -
  let ?p = "example_params False ''active'' ''absent''"
  have p: "param_state ?p = ''absent''" "param_action_name ?p = ''Exampleaction''"
      "\<not> param_check_mode ?p"
    by (simp_all add: example_params_def)
  have e: "has_zabbix_api (example_env api)" "login_error (example_env api) = None" for api
    by (simp_all add: example_env_def)
  have g: "action_get (server (example_env (example_server rows))) (action_query (param_action_name ?p))
             = Inr rows" for rows
    by (simp add: example_env_def example_server_def)
  have d: "action_delete (server (example_env (example_server [example_row]))) [PStr ''7'']
             = Inr (PDict [(''actionids'', PList [PStr ''7''])])"
    by (simp add: example_env_def example_server_def)
  have i: "map_of example_row ''actionid'' = Some (PStr ''7'')" "py_truthy (PStr ''7'')"
    by (simp_all add: example_row_def)
  from delete_on_absent [OF e p(1) g, of "[]"]
  have a: "main (example_env (example_server [])) ?p =
      ([ActionGet example_query], Exit (ExitJson False None))"
    using p(2) by (simp add: example_query_def)
  from delete_on_absent [OF e p(1) g, of "[example_row]"] i
  have b: "main (example_env (example_server [example_row])) ?p =
     ([ActionGet example_query, ActionDelete [PStr ''7'']],
      Exit (ExitJson True (Some ''Successfully deleted action Exampleaction'')))"
    using p(2,3) d by (simp add: example_query_def)
  from a b show ?thesis by simp
qed

section \<open>Check mode\<close>

lemma action_exists_other_mode:
  assumes "action_exists self name = (cs, Ret (self', aid))"
  shows "action_exists (self\<lparr>check_mode := b\<rparr>) name = (cs, Ret (self'\<lparr>check_mode := b\<rparr>, aid))"
  using assms
  by (auto simp: action_exists_def remote_def io_bind_Ret io_bind_not_Ret io_return_def
      split: sum.splits list.splits option.splits)

text \<open>
  A found action whose stored fields equal the desired ones: check mode reports
  \<^verbatim>\<open>changed=True\<close>, the same invocation without check mode reports \<^verbatim>\<open>changed=False\<close>.
\<close>

theorem dry_run_counterexample:
  "changed_of (main (example_env (example_server [example_row]))
                 (example_params True ''active'' ''present'')) = Some True \<and>
   changed_of (main (example_env (example_server [example_row]))
                 (example_params False ''active'' ''present'')) = Some False"
  by code_simp

text \<open>
  Claim C1, amended. With check mode set and a lookup that returns, the lookup is the only
  remote call in all four combinations, and the module reports \<^verbatim>\<open>changed=False\<close> when
  the action is not found and should be absent, \<^verbatim>\<open>changed=True\<close> in the three other
  combinations; for a found action that should be present this is reported before any
  field is compared. Outside that combination, and when the server accepts the create and
  delete calls, the flag is the one the same invocation reports without check mode.
\<close>

theorem dry_run:
  assumes "has_zabbix_api env" and "login_error env = None"
    and "param_check_mode p"
    and "action_exists
           \<lparr>check_mode = param_check_mode p, zapi = server env, existing_data = None\<rparr>
           (param_action_name p) = (cs, Ret (self, action_id))"
  shows "main env p =
           ([ActionGet (action_query (param_action_name p))],
            Exit (ExitJson (py_truthy action_id \<or> param_state p \<noteq> ''absent'') None)) \<and>
         (\<not> (py_truthy action_id \<and> param_state p \<noteq> ''absent'') \<and>
          (\<forall>payload. \<exists>ack. action_create (server env) payload = Inr ack) \<and>
          (\<forall>ids. \<exists>ack. action_delete (server env) ids = Inr ack) \<longrightarrow>
          changed_of (main env (p\<lparr>param_check_mode := False\<rparr>)) = changed_of (main env p))"
proof -
  have cs: "cs = [ActionGet (action_query (param_action_name p))]"
    using action_exists_calls [OF assms(4)] .
  have cm: "check_mode self"
    using action_exists_check_mode [OF assms(4)] assms(3) by simp
  have dry: "main env p =
      ([ActionGet (action_query (param_action_name p))],
       Exit (ExitJson (py_truthy action_id \<or> param_state p \<noteq> ''absent'') None))"
    using main_dispatch [OF assms(1,2,4)] cs cm
      add_action_eq [OF desired_data_facts(1,3,4), of self p]
    by (simp add: delete_action_eq update_action_def update_action_try_def exit_json_def
        io_try_simps)
  let ?q = "p\<lparr>param_check_mode := False\<rparr>"
  have ex: "action_exists
      \<lparr>check_mode = param_check_mode ?q, zapi = server env, existing_data = None\<rparr>
      (param_action_name ?q) = (cs, Ret (self\<lparr>check_mode := False\<rparr>, action_id))"
    using action_exists_other_mode [OF assms(4), of False] by simp
  have real: "changed_of (main env ?q) = changed_of (main env p)"
    if nf: "\<not> (py_truthy action_id \<and> param_state p \<noteq> ''absent'')"
      and cr: "\<forall>payload. \<exists>ack. action_create (server env) payload = Inr ack"
      and de: "\<forall>ids. \<exists>ack. action_delete (server env) ids = Inr ack"
  proof -
    have z: "zapi (self\<lparr>check_mode := False\<rparr>) = server env"
      using action_exists_check_mode [OF assms(4)] by simp
    obtain ack where ack: "action_delete (server env) [action_id] = Inr ack"
      using de by blast
    obtain ack' where ack': "action_create (server env)
        (filter (\<lambda>(k, v). py_truthy v) (desired_data p)) = Inr ack'"
      using cr by blast
    have dd: "desired_data ?q = desired_data p"
      by (simp add: desired_data_def)
    show ?thesis
      using main_dispatch [OF assms(1,2) ex] nf dry z ack ack' dd
        add_action_eq [OF desired_data_facts(1,3,4), of "self\<lparr>check_mode := False\<rparr>" p]
      by (auto simp: changed_of_def delete_action_eq)
  qed
  show ?thesis using dry real by blast
qed

theorem dry_run_witness:
  "param_check_mode (example_params True ''active'' ''present'') \<and>
   main (example_env (example_server [])) (example_params True ''active'' ''present'') =
     ([ActionGet example_query], Exit (ExitJson True None)) \<and>
   changed_of (main (example_env (example_server []))
                 ((example_params True ''active'' ''present'')\<lparr>param_check_mode := False\<rparr>)) =
   changed_of (main (example_env (example_server [])) (example_params True ''active'' ''present''))"
proof -
  let ?env = "example_env (example_server [])"
  let ?p = "example_params True ''active'' ''present''"
  have 1: "has_zabbix_api ?env" by (simp add: example_env_def)
  have 2: "login_error ?env = None" by (simp add: example_env_def)
  have 3: "param_check_mode ?p" by (simp add: example_params_def)
  have 4: "action_exists
             \<lparr>check_mode = param_check_mode ?p, zapi = server ?env, existing_data = None\<rparr>
             (param_action_name ?p) =
           ([ActionGet example_query],
            Ret (\<lparr>check_mode = True, zapi = server ?env, existing_data = None\<rparr>, PList []))"
    by (simp add: action_exists_empty example_env_def example_server_def example_params_def
        example_query_def)
  have 5: "\<forall>payload. \<exists>ack. action_create (server ?env) payload = Inr ack"
    by (simp add: example_env_def example_server_def)
  have 6: "\<forall>ids. \<exists>ack. action_delete (server ?env) ids = Inr ack"
    by (simp add: example_env_def example_server_def)
  have 7: "param_state ?p \<noteq> ''absent''" "param_action_name ?p = ''Exampleaction''"
    by (simp_all add: example_params_def)
  from dry_run [OF 1 2 3 4] 3 5 6 7 show ?thesis
    by (simp add: example_query_def)
qed

section \<open>Invocations that end otherwise than specified\<close>

text \<open>
  Claim C3. The lookup returns a row without \<^verbatim>\<open>actionid\<close>: \<^verbatim>\<open>action_exists\<close> returns
  the result list, which is truthy, and \<^verbatim>\<open>main\<close> takes the branches of a found action.
  With the desired state \<^verbatim>\<open>absent\<close> a delete call is issued with the list as identifier;
  with the desired state \<^verbatim>\<open>present\<close> no create call is issued and the invocation ends
  with an exception.
\<close>

theorem lookup_without_identifier:
  "main (example_env (example_server [row_without_id])) (example_params False ''active'' ''absent'') =
     ([ActionGet example_query, ActionDelete [PList [PDict row_without_id]]],
      Exit (ExitJson True (Some ''Successfully deleted action Exampleaction''))) \<and>
   main (example_env (example_server [row_without_id])) (example_params False ''active'' ''present'') =
     ([ActionGet example_query], Raise (KeyError ''host''))"
  by code_simp

text \<open>
  Claim C6. A found action whose status differs from the desired one, outside check mode,
  on a server that accepts the update: the update call is issued with the payload, and
  the invocation ends with \<^verbatim>\<open>KeyError('host')\<close> instead of reporting \<^verbatim>\<open>changed=True\<close>.
\<close>

theorem update_report_fails:
  "main (example_env (example_server [example_row])) (example_params False ''passive'' ''present'') =
     ([ActionGet example_query,
       ActionUpdate [(''actionid'', PStr ''7''), (''status'', PStr ''6'')]],
      Raise (KeyError ''host''))"
  by code_simp

text \<open>
  Claim C10. On a server that rejects every change, a failed create and a failed delete
  end with \<^verbatim>\<open>fail_json\<close>, the message naming the action and the error text, after the
  one call; a failed update ends with \<^verbatim>\<open>KeyError('host')\<close>, raised by the handler while
  it builds the failure message.
\<close>

theorem remote_failure_reports:
  "main (example_env (rejecting_server [])) (example_params False ''passive'' ''present'') =
     ([ActionGet example_query,
       ActionCreate [(''name'', PStr ''Exampleaction''), (''status'', PStr ''6''),
                     (''esc_period'', PStr ''2m''),
                     (''operations'', PList [PDict [(''operationtype'', PStr ''0'')]])]],
      Exit (FailJson ''Failed to create action Exampleaction: Invalid params'')) \<and>
   main (example_env (rejecting_server [example_row])) (example_params False ''passive'' ''absent'') =
     ([ActionGet example_query, ActionDelete [PStr ''7'']],
      Exit (FailJson ''Failed to delete action Exampleaction: Invalid params'')) \<and>
   main (example_env (rejecting_server [example_row])) (example_params False ''passive'' ''present'') =
     ([ActionGet example_query,
       ActionUpdate [(''actionid'', PStr ''7''), (''status'', PStr ''6'')]],
      Raise (KeyError ''host''))"
  by code_simp

section \<open>The interface merge\<close>

declare io_bind_Ret [simp] io_bind_not_Ret [simp]

lemma str_values_strings:
  "\<forall>v \<in> snd ` set d. is_str v \<Longrightarrow> str_values d = d"
  by (induction d) (auto simp: str_values_def is_str_def split: pyval.splits)

lemma fold_setitem_same:
  "\<forall>(k, v) \<in> set xs. map_of d k = Some v \<Longrightarrow>
   fold (\<lambda>(k, v) acc. setitem acc k v) xs d = d"
  by (induction xs) (auto simp: setitem_def update_triv)

lemma dict_update_self: "distinct (map fst d) \<Longrightarrow> dict_update d d = d"
  unfolding dict_update_def by (rule fold_setitem_same) auto

lemma dict_update_empty: "dict_update d [] = d"
  by (simp add: dict_update_def)

lemma py_eq_string_dict:
  assumes "distinct (map fst d)" and "\<forall>v \<in> snd ` set d. is_str v"
  shows "py_eq (PDict d) (PDict d)"
proof -
  have "case map_of d k of None \<Rightarrow> False | Some w \<Rightarrow> py_eq v w" if "(k, v) \<in> set d" for k v
  proof -
    from that assms(1) have "map_of d k = Some v" by simp
    moreover from that have "v \<in> snd ` set d" by force
    with assms(2) have "is_str v" by blast
    then obtain s where "v = PStr s"
      by (cases v) (simp_all add: is_str_def)
    ultimately show ?thesis by simp
  qed
  then show ?thesis by auto
qed

lemma compile_interface_params_dict:
  assumes "existing_data self = Some ed" and "map_of ed ''interface'' = Some (PDict old)"
  shows "compile_interface_params self (PDict new) =
           ([], Ret (if py_ne (PDict (str_values (dict_update old new))) (PDict old)
                     then str_values (dict_update old new) else []))"
  using assms
  by (cases old)
    (simp_all add: compile_interface_params_def py_len_def copy_update_def dict_update_py_def
      io_return_def io_bind_Ret Let_def)

lemma py_eq_six: "py_eq st (PStr ''6'') \<longleftrightarrow> st = PStr ''6''"
  by (cases st) simp_all

lemma has_key_pop: "\<not> has_key (pop d k) k"
  by (simp add: has_key_def pop_def delete_notin_dom)

lemma update_parameters_interface:
  assumes "update_parameters self aid data = (cs, Ret parameters)"
  shows "map_of parameters ''interface'' =
     (case map_of data ''interface'' of
        None \<Rightarrow> None
      | Some desired \<Rightarrow>
          (case map_of data ''status'' of
             None \<Rightarrow> None
           | Some st \<Rightarrow>
               if st = PStr ''6'' then
                 (case snd (compile_interface_params self desired) of
                    Ret m \<Rightarrow> if m \<noteq> [] then Some (PDict m) else None
                  | _ \<Rightarrow> None)
               else None))"
proof -
  obtain r where r: "diff_loop (existing_data self) data (map fst data) [(''actionid'', aid)] = ([], r)"
    using diff_loop_shape [of "existing_data self" data "map fst data" "[(''actionid'', aid)]"]
    by (metis prod.collapse)
  with assms obtain ps0 where ps0: "r = Ret ps0"
    by (cases r) (auto simp: update_parameters_def io_bind_not_Ret)
  define ps1 where "ps1 = (if has_key ps0 ''interface'' then pop ps0 ''interface'' else ps0)"
  have no: "map_of ps1 ''interface'' = None"
    using has_key_pop [of ps0 "''interface''"] by (auto simp: ps1_def has_key_map_of)
  have up: "update_parameters self aid data =
     (if has_key data ''interface'' then
         io_bind (getitem data ''status'')
           (\<lambda>status.
              if py_eq status (PStr ''6'') then
                io_bind (getitem data ''interface'')
                  (\<lambda>desired.
                io_bind (compile_interface_params self desired)
                  (\<lambda>new_interface.
                     if 0 < length new_interface
                     then io_return (setitem ps1 ''interface'' (PDict new_interface))
                     else io_return ps1))
              else io_return ps1)
       else io_return ps1)"
    using r ps0 unfolding ps1_def update_parameters_def by (simp add: io_bind_Ret Let_def)
  show ?thesis
  proof (cases "map_of data ''interface''")
    case None
    then have "\<not> has_key data ''interface''" by (simp add: has_key_map_of)
    with up assms have "parameters = ps1" by (simp add: io_return_def)
    then show ?thesis using None no by simp
  next
    case (Some desired)
    then have hk: "has_key data ''interface''" by (simp add: has_key_map_of)
    show ?thesis
    proof (cases "map_of data ''status''")
      case None
      then show ?thesis
        using up assms hk by (simp add: getitem_None io_raise_def io_bind_not_Ret)
    next
      case st: (Some st)
      show ?thesis
      proof (cases "st = PStr ''6''")
        case False
        then have "parameters = ps1"
          using up assms hk st by (simp add: getitem_Some py_eq_six io_return_def)
        then show ?thesis using Some st False no by simp
      next
        case True
        obtain c where c: "compile_interface_params self desired = ([], c)"
          using compile_interface_params_shape [of self desired] by (metis prod.collapse)
        have "update_parameters self aid data =
            io_bind ([], c)
              (\<lambda>new_interface.
                 if 0 < length new_interface
                 then io_return (setitem ps1 ''interface'' (PDict new_interface))
                 else io_return ps1)"
          using up hk st True Some c by (simp add: getitem_Some)
        with assms obtain m where m: "c = Ret m"
            "parameters = (if 0 < length m then setitem ps1 ''interface'' (PDict m) else ps1)"
          by (cases c) (auto simp: io_bind_Ret io_bind_not_Ret io_return_def split: if_splits)
        then show ?thesis
          using Some st True c no by (auto simp: map_of_setitem)
      qed
    qed
  qed
qed

lemma dict_update_not_empty: "dict_update old new = [] \<Longrightarrow> old = []"
proof (induction new arbitrary: old)
  case Nil
  then show ?case by (simp add: dict_update_def)
next
  case (Cons kv new)
  obtain k v where "kv = (k, v)" by (cases kv)
  with Cons.prems have "dict_update (setitem old k v) new = []"
    by (simp add: dict_update_def)
  from Cons.IH [OF this] show ?case by (simp add: setitem_def)
qed

text \<open>
  A stored interface with an integer value: merging the empty interface into it, or the
  interface into itself, returns the interface with the value turned into a string, not
  the empty dictionary.
\<close>

theorem interface_merge_counterexample:
  "compile_interface_params
     \<lparr>check_mode = False, zapi = example_server [],
      existing_data = Some [(''interface'', PDict [(''a'', PInt 1)])]\<rparr> (PDict []) =
     ([], Ret [(''a'', PStr ''1'')]) \<and>
   compile_interface_params
     \<lparr>check_mode = False, zapi = example_server [],
      existing_data = Some [(''interface'', PDict [(''a'', PInt 1)])]\<rparr> (PDict [(''a'', PInt 1)]) =
     ([], Ret [(''a'', PStr ''1'')])"
  by code_simp

text \<open>
  Claim C4, amended. For a stored interface with distinct keys whose values are all
  strings: merging the empty interface into it returns the empty dictionary; merging it
  into itself returns the empty dictionary. Merging \<^verbatim>\<open>{a: 1}\<close> into an empty or missing
  stored interface returns \<^verbatim>\<open>{a: "1"}\<close>. Whatever dictionary is merged, the result is
  empty or the stored interface overlaid with it, every value replaced by its \<^verbatim>\<open>str\<close>.
\<close>

theorem interface_merge_laws:
  assumes "existing_data self = Some ed" and "map_of ed ''interface'' = Some (PDict old)"
    and "distinct (map fst old)" and "\<forall>v \<in> snd ` set old. is_str v"
  shows "compile_interface_params self (PDict []) = ([], Ret []) \<and>
         compile_interface_params self (PDict old) = ([], Ret []) \<and>
         compile_interface_params (self\<lparr>existing_data := Some [(''interface'', PDict [])]\<rparr>)
           (PDict [(''a'', PInt 1)]) = ([], Ret [(''a'', PStr ''1'')]) \<and>
         compile_interface_params (self\<lparr>existing_data := Some []\<rparr>)
           (PDict [(''a'', PInt 1)]) = ([], Ret [(''a'', PStr ''1'')]) \<and>
         (\<forall>new m. compile_interface_params self (PDict new) = ([], Ret m) \<longrightarrow>
            m = [] \<or> m = str_values (dict_update old new))"
proof -
  have eq: "py_eq (PDict old) (PDict old)"
    using py_eq_string_dict [OF assms(3,4)] .
  have 1: "compile_interface_params self (PDict []) = ([], Ret [])"
    using compile_interface_params_dict [OF assms(1,2), of "[]"] eq
    by (simp add: dict_update_empty str_values_strings [OF assms(4)] py_ne_def)
  have 2: "compile_interface_params self (PDict old) = ([], Ret [])"
    using compile_interface_params_dict [OF assms(1,2), of old] eq
    by (simp add: dict_update_self [OF assms(3)] str_values_strings [OF assms(4)] py_ne_def)
  have one: "py_str (PInt 1) = ''1''"
    by (simp add: dec_int_def dec_nat.simps)
  have 3: "compile_interface_params (self\<lparr>existing_data := Some [(''interface'', PDict [])]\<rparr>)
      (PDict [(''a'', PInt 1)]) = ([], Ret [(''a'', PStr ''1'')])"
    using one
    by (simp add: compile_interface_params_def py_len_def copy_update_def dict_update_py_def
        dict_update_def setitem_def str_values_def py_ne_def io_return_def io_bind_Ret)
  have 4: "compile_interface_params (self\<lparr>existing_data := Some []\<rparr>)
      (PDict [(''a'', PInt 1)]) = ([], Ret [(''a'', PStr ''1'')])"
    using one
    by (simp add: compile_interface_params_def py_len_def copy_update_def dict_update_py_def
        dict_update_def setitem_def str_values_def py_ne_def io_return_def io_bind_Ret)
  have 5: "m = [] \<or> m = str_values (dict_update old new)"
    if "compile_interface_params self (PDict new) = ([], Ret m)" for new m
    using that compile_interface_params_dict [OF assms(1,2), of new]
    by (auto split: if_splits)
  from 1 2 3 4 5 show ?thesis by blast
qed

theorem interface_merge_laws_witness:
  "compile_interface_params
     \<lparr>check_mode = False, zapi = example_server [],
      existing_data = Some [(''interface'', PDict [(''ip'', PStr ''10.0.0.1''), (''port'', PStr ''10050'')])]\<rparr>
     (PDict []) = ([], Ret []) \<and>
   compile_interface_params
     \<lparr>check_mode = False, zapi = example_server [],
      existing_data = Some [(''interface'', PDict [(''ip'', PStr ''10.0.0.1''), (''port'', PStr ''10050'')])]\<rparr>
     (PDict [(''ip'', PStr ''10.0.0.1''), (''port'', PStr ''10050'')]) = ([], Ret [])"
proof -
  let ?old = "[(''ip'', PStr ''10.0.0.1''), (''port'', PStr ''10050'')]"
  let ?self = "\<lparr>check_mode = False, zapi = example_server [],
      existing_data = Some [(''interface'', PDict ?old)]\<rparr>"
  have 1: "existing_data ?self = Some [(''interface'', PDict ?old)]" by simp
  have 2: "map_of [(''interface'', PDict ?old)] ''interface'' = Some (PDict ?old)" by simp
  have 3: "distinct (map fst ?old)" by simp
  have 4: "\<forall>v \<in> snd ` set ?old. is_str v" by (simp add: is_str_def)
  from interface_merge_laws [OF 1 2 3 4] show ?thesis by blast
qed

text \<open>
  Claim C7. In a payload \<^verbatim>\<open>update_action\<close> builds, the key \<^verbatim>\<open>interface\<close> is present
  exactly when the desired status is \<^verbatim>\<open>'6'\<close>, the desired dictionary has the key
  \<^verbatim>\<open>interface\<close>, and \<^verbatim>\<open>compile_interface_params\<close> returns a non-empty dictionary,
  which is then the value; what the loop over the fields stored under \<^verbatim>\<open>interface\<close>
  never reaches the payload. For a stored interface \<open>old\<close> and a desired interface
  \<open>new\<close>, both dictionaries, the value is \<open>old\<close> overlaid with \<open>new\<close>, every value
  replaced by its \<^verbatim>\<open>str\<close>, and the key is left out when that equals \<open>old\<close>.
\<close>

theorem interface_in_payload:
  assumes "update_parameters self action_id data = (cs, Ret parameters)"
  shows "(has_key parameters ''interface'' \<longleftrightarrow>
            map_of data ''status'' = Some (PStr ''6'') \<and>
            (\<exists>desired m. map_of data ''interface'' = Some desired \<and>
               compile_interface_params self desired = ([], Ret m) \<and> m \<noteq> [] \<and>
               map_of parameters ''interface'' = Some (PDict m))) \<and>
         (\<forall>ed old new.
            existing_data self = Some ed \<and> map_of ed ''interface'' = Some (PDict old) \<and>
            map_of data ''interface'' = Some (PDict new) \<and>
            map_of data ''status'' = Some (PStr ''6'') \<longrightarrow>
            map_of parameters ''interface'' =
              (if py_eq (PDict (str_values (dict_update old new))) (PDict old) then None
               else Some (PDict (str_values (dict_update old new)))))"
proof (intro conjI allI impI)
  note i = update_parameters_interface [OF assms]
  show "has_key parameters ''interface'' \<longleftrightarrow>
            map_of data ''status'' = Some (PStr ''6'') \<and>
            (\<exists>desired m. map_of data ''interface'' = Some desired \<and>
               compile_interface_params self desired = ([], Ret m) \<and> m \<noteq> [] \<and>
               map_of parameters ''interface'' = Some (PDict m))"
  proof
    assume "has_key parameters ''interface''"
    then obtain x where x: "map_of parameters ''interface'' = Some x"
      by (auto simp: has_key_map_of)
    with i obtain desired m where
      "map_of data ''interface'' = Some desired" "map_of data ''status'' = Some (PStr ''6'')"
      "snd (compile_interface_params self desired) = Ret m" "m \<noteq> []" "x = PDict m"
      by (auto split: option.splits if_splits res.splits)
    moreover have "fst (compile_interface_params self desired) = []"
      using compile_interface_params_shape [of self desired] by simp
    ultimately show "map_of data ''status'' = Some (PStr ''6'') \<and>
            (\<exists>desired m. map_of data ''interface'' = Some desired \<and>
               compile_interface_params self desired = ([], Ret m) \<and> m \<noteq> [] \<and>
               map_of parameters ''interface'' = Some (PDict m))"
      using x by (metis prod.collapse)
  next
    assume "map_of data ''status'' = Some (PStr ''6'') \<and>
            (\<exists>desired m. map_of data ''interface'' = Some desired \<and>
               compile_interface_params self desired = ([], Ret m) \<and> m \<noteq> [] \<and>
               map_of parameters ''interface'' = Some (PDict m))"
    then show "has_key parameters ''interface''"
      by (auto simp: has_key_map_of)
  qed
next
  fix ed old new
  assume a: "existing_data self = Some ed \<and> map_of ed ''interface'' = Some (PDict old) \<and>
            map_of data ''interface'' = Some (PDict new) \<and>
            map_of data ''status'' = Some (PStr ''6'')"
  let ?merged = "str_values (dict_update old new)"
  have c: "compile_interface_params self (PDict new) =
      ([], Ret (if py_ne (PDict ?merged) (PDict old) then ?merged else []))"
    using compile_interface_params_dict [of self ed old new] a by simp
  have ne: "?merged \<noteq> []" if "py_ne (PDict ?merged) (PDict old)"
  proof
    assume "?merged = []"
    then have "dict_update old new = []" by (simp add: str_values_def)
    then have "old = []" by (rule dict_update_not_empty)
    with \<open>?merged = []\<close> that show False by (simp add: py_ne_def)
  qed
  show "map_of parameters ''interface'' =
      (if py_eq (PDict ?merged) (PDict old) then None else Some (PDict ?merged))"
    using update_parameters_interface [OF assms] a c ne
    by (auto simp: py_ne_def)
qed

theorem interface_in_payload_witness:
  "update_parameters passive_self (PStr ''7'') passive_data =
     ([], Ret [(''actionid'', PStr ''7''), (''status'', PStr ''6''),
               (''interface'', PDict [(''ip'', PStr ''10.0.0.1''), (''useip'', PStr ''0'')])]) \<and>
   has_key [(''actionid'', PStr ''7''), (''status'', PStr ''6''),
            (''interface'', PDict [(''ip'', PStr ''10.0.0.1''), (''useip'', PStr ''0'')])]
     ''interface'' \<and>
   compile_interface_params passive_self (PDict [(''useip'', PInt 0)]) =
     ([], Ret [(''ip'', PStr ''10.0.0.1''), (''useip'', PStr ''0'')])"
proof -
  let ?ps = "[(''actionid'', PStr ''7''), (''status'', PStr ''6''),
      (''interface'', PDict [(''ip'', PStr ''10.0.0.1''), (''useip'', PStr ''0'')])]"
  have up: "update_parameters passive_self (PStr ''7'') passive_data = ([], Ret ?ps)"
    by code_simp
  from interface_in_payload [OF up]
  have "has_key ?ps ''interface'' \<longleftrightarrow>
      map_of passive_data ''status'' = Some (PStr ''6'') \<and>
      (\<exists>desired m. map_of passive_data ''interface'' = Some desired \<and>
         compile_interface_params passive_self desired = ([], Ret m) \<and> m \<noteq> [] \<and>
         map_of ?ps ''interface'' = Some (PDict m))"
    by blast
  moreover have hk: "has_key ?ps ''interface''"
    by (simp add: has_key_def)
  ultimately obtain desired m where
    "map_of passive_data ''interface'' = Some desired"
    "compile_interface_params passive_self desired = ([], Ret m)"
    "map_of ?ps ''interface'' = Some (PDict m)"
    by blast
  then have "compile_interface_params passive_self (PDict [(''useip'', PInt 0)]) =
      ([], Ret [(''ip'', PStr ''10.0.0.1''), (''useip'', PStr ''0'')])"
    by (simp add: passive_data_def)
  with up hk show ?thesis by simp
qed

end
